theory Spec2Isabelle
  imports Main "HOL-Library.Sublist" "HOL-Library.AList"
begin

section \<open>JavaScript values as the provider sees them\<close>

text \<open>
  The provider in \<^verbatim>\<open>app/lib/modules/llm/providers/google.ts\<close> reads the model
  listing as \<^verbatim>\<open>any\<close>, so the embedding works on JSON values as the runtime has
  them. A property read yields a JSON value or \<^verbatim>\<open>undefined\<close>, which is \<open>None\<close>.

  Modelling conventions, fixed once:
  \<^item> a number is an \<open>int\<close>: token limits are integers, and on integers below \<open>2^53\<close>
    the arithmetic of the source (comparison, minimum, division followed by
    \<^verbatim>\<open>Math.floor\<close>) is exact and \<^verbatim>\<open>Number::toString\<close> is the decimal numeral;
    \<^verbatim>\<open>NaN\<close> is \<open>None\<close> in the type \<open>int option\<close>;
  \<^item> a string is a \<open>char list\<close>; the substrings searched for are ASCII, so searching
    bytes and searching UTF-16 code units agree;
  \<^item> an object is the list of its own properties in enumeration order; \<open>map_of\<close> reads
    a property;
  \<^item> a \<^verbatim>\<open>throw\<close> is the \<open>Inl\<close> of a sum type;
  \<^item> built-ins and collaborators whose code is not part of the provider
    (\<^verbatim>\<open>JSON.parse\<close>, \<^verbatim>\<open>JSON.stringify\<close>, the string-to-number conversion,
    \<^verbatim>\<open>fetch\<close>, the vendor SDK, the base class's key lookup) are parameters.
\<close>

datatype json =
    JNull
  | JBool bool
  | JNum int
  | JStr string
  | JArr "json list"
  | JObj "(string \<times> json) list"

datatype error =
    Thrown string       \<comment> \<open>\<^verbatim>\<open>throw "..."\<close>: a bare string\<close>
  | Error string        \<comment> \<open>\<^verbatim>\<open>throw new Error("...")\<close>\<close>
  | TypeError           \<comment> \<open>raised by the runtime on a bad property read or call\<close>
  | SyntaxError         \<comment> \<open>raised by \<^verbatim>\<open>JSON.parse\<close>\<close>
  | Rejected string     \<comment> \<open>a failure reported by a collaborator\<close>

fun truthy :: "json option \<Rightarrow> bool" where
  "truthy None = False"
| "truthy (Some JNull) = False"
| "truthy (Some (JBool b)) = b"
| "truthy (Some (JNum n)) = (n \<noteq> 0)"
| "truthy (Some (JStr s)) = (s \<noteq> [])"
| "truthy (Some (JArr xs)) = True"
| "truthy (Some (JObj kvs)) = True"

fun typeof :: "json option \<Rightarrow> string" where
  "typeof None = ''undefined''"
| "typeof (Some JNull) = ''object''"
| "typeof (Some (JBool b)) = ''boolean''"
| "typeof (Some (JNum n)) = ''number''"
| "typeof (Some (JStr s)) = ''string''"
| "typeof (Some (JArr xs)) = ''object''"
| "typeof (Some (JObj kvs)) = ''object''"

text \<open>\<^verbatim>\<open>a || b\<close> with a default that is a value.\<close>

definition js_or :: "json option \<Rightarrow> json \<Rightarrow> json" where
  "js_or a b = (if truthy a then (case a of Some v \<Rightarrow> v | None \<Rightarrow> b) else b)"

text \<open>
  \<^verbatim>\<open>v.key\<close> for the property names the provider reads, none of which is a built-in
  property of a primitive or of an array: the read throws on \<^verbatim>\<open>null\<close>, finds an
  own property of an object, and is \<^verbatim>\<open>undefined\<close> everywhere else.
\<close>

fun get_prop :: "json \<Rightarrow> string \<Rightarrow> error + json option" where
  "get_prop JNull k = Inl TypeError"
| "get_prop (JObj kvs) k = Inr (map_of kvs k)"
| "get_prop v k = Inr None"

text \<open>\<^verbatim>\<open>key in v\<close> and \<^verbatim>\<open>Array.isArray(v)\<close>.\<close>

fun js_in :: "string \<Rightarrow> json \<Rightarrow> bool" where
  "js_in k (JObj kvs) = (k \<in> fst ` set kvs)"
| "js_in k v = False"

fun Array_isArray :: "json option \<Rightarrow> bool" where
  "Array_isArray (Some (JArr xs)) = True"
| "Array_isArray v = False"

subsection \<open>Strings\<close>

text \<open>\<^verbatim>\<open>String.prototype.includes\<close>.\<close>

fun str_includes :: "string \<Rightarrow> string \<Rightarrow> bool" where
  "str_includes [] p = (p = [])"
| "str_includes (c # cs) p = (prefix p (c # cs) \<or> str_includes cs p)"

text \<open>
  \<^verbatim>\<open>String.prototype.replace\<close> with a string pattern: the first occurrence only, at
  whatever position it stands.
\<close>

fun str_replace :: "string \<Rightarrow> string \<Rightarrow> string \<Rightarrow> string" where
  "str_replace [] p r = (if p = [] then r else [])"
| "str_replace (c # cs) p r =
     (if prefix p (c # cs) then r @ drop (length p) (c # cs) else c # str_replace cs p r)"

text \<open>
  \<^verbatim>\<open>v.includes(p)\<close> on a value read from JSON: a string searches for the
  substring, an array for an element equal to the string, and nothing else has the
  method.
\<close>

fun js_includes :: "json option \<Rightarrow> string \<Rightarrow> error + bool" where
  "js_includes (Some (JStr s)) p = Inr (str_includes s p)"
| "js_includes (Some (JArr xs)) p = Inr (JStr p \<in> set xs)"
| "js_includes v p = Inl TypeError"

fun js_replace :: "json option \<Rightarrow> string \<Rightarrow> string \<Rightarrow> error + string" where
  "js_replace (Some (JStr s)) p r = Inr (str_replace s p r)"
| "js_replace v p r = Inl TypeError"

subsection \<open>Numbers and conversions\<close>

function string_of_nat :: "nat \<Rightarrow> string" where
  "string_of_nat n =
     (if n < 10 then [''0123456789'' ! n]
      else string_of_nat (n div 10) @ [''0123456789'' ! (n mod 10)])"
  by pat_completeness auto
termination
  by (relation "measure (\<lambda>n. n)") auto

definition string_of_int :: "int \<Rightarrow> string" where
  "string_of_int i = (if i < 0 then CHR ''-'' # string_of_nat (nat (- i)) else string_of_nat (nat i))"

text \<open>\<^verbatim>\<open>ToString\<close>; an array joins its elements with commas, \<^verbatim>\<open>null\<close> elements empty.\<close>

fun ToString :: "json \<Rightarrow> string" and Array_join :: "json list \<Rightarrow> string" where
  "ToString JNull = ''null''"
| "ToString (JBool b) = (if b then ''true'' else ''false'')"
| "ToString (JNum n) = string_of_int n"
| "ToString (JStr s) = s"
| "ToString (JArr xs) = Array_join xs"
| "ToString (JObj kvs) = ''[object Object]''"
| "Array_join [] = []"
| "Array_join (x # xs) =
     (if x = JNull then [] else ToString x) @ (if xs = [] then [] else '','' @ Array_join xs)"

definition template :: "json option \<Rightarrow> string" where
  "template v = (case v of None \<Rightarrow> ''undefined'' | Some j \<Rightarrow> ToString j)"

definition number_to_string :: "int option \<Rightarrow> string" where
  "number_to_string n = (case n of None \<Rightarrow> ''NaN'' | Some i \<Rightarrow> string_of_int i)"

text \<open>
  \<^verbatim>\<open>ToNumber\<close>. The conversion of a string (\<^verbatim>\<open>StringToNumber\<close>) is the parameter
  \<open>s2n\<close>; an array or an object is first converted to a string.
\<close>

fun ToNumber :: "(string \<Rightarrow> int option) \<Rightarrow> json \<Rightarrow> int option" where
  "ToNumber s2n JNull = Some 0"
| "ToNumber s2n (JBool b) = Some (if b then 1 else 0)"
| "ToNumber s2n (JNum n) = Some n"
| "ToNumber s2n (JStr s) = s2n s"
| "ToNumber s2n (JArr xs) = s2n (ToString (JArr xs))"
| "ToNumber s2n (JObj kvs) = s2n (ToString (JObj kvs))"

text \<open>\<^verbatim>\<open>v > n\<close> and \<^verbatim>\<open>v >= n\<close> against a number: false when \<open>v\<close> converts to \<^verbatim>\<open>NaN\<close>.\<close>

definition js_gt :: "(string \<Rightarrow> int option) \<Rightarrow> json \<Rightarrow> int \<Rightarrow> bool" where
  "js_gt s2n v n = (case ToNumber s2n v of None \<Rightarrow> False | Some a \<Rightarrow> a > n)"

definition js_ge :: "(string \<Rightarrow> int option) \<Rightarrow> json \<Rightarrow> int \<Rightarrow> bool" where
  "js_ge s2n v n = (case ToNumber s2n v of None \<Rightarrow> False | Some a \<Rightarrow> a \<ge> n)"

definition Math_min :: "(string \<Rightarrow> int option) \<Rightarrow> json \<Rightarrow> int \<Rightarrow> int option" where
  "Math_min s2n v n = (case ToNumber s2n v of None \<Rightarrow> None | Some a \<Rightarrow> Some (min a n))"

text \<open>\<^verbatim>\<open>Math.floor(v / d)\<close> for a positive integer \<open>d\<close>.\<close>

definition Math_floor_div :: "(string \<Rightarrow> int option) \<Rightarrow> json \<Rightarrow> int \<Rightarrow> int option" where
  "Math_floor_div s2n v d = (case ToNumber s2n v of None \<Rightarrow> None | Some a \<Rightarrow> Some (a div d))"

section \<open>The provider object\<close>

record ModelInfo =
  name :: string
  label :: string
  provider :: string
  maxTokenAllowed :: json
  maxCompletionTokens :: "int option"

record provider_config =
  apiTokenKey :: string

record GoogleProvider =
  name :: string
  getApiKeyLink :: string
  config :: provider_config
  staticModels :: "ModelInfo list"

text \<open>The object as the class's field initialisers build it.\<close>

definition google_provider :: GoogleProvider where
  "google_provider =
     \<lparr> GoogleProvider.name = ''Google'',
       getApiKeyLink = ''https://aistudio.google.com/app/apikey'',
       config = \<lparr> apiTokenKey = ''GOOGLE_GENERATIVE_AI_API_KEY'' \<rparr>,
       staticModels =
         [ \<lparr> ModelInfo.name = ''gemini-2.5-pro'', label = ''Gemini 2.5 Pro'', provider = ''Google'',
             maxTokenAllowed = JNum 1048576, maxCompletionTokens = Some 65536 \<rparr>,
           \<lparr> ModelInfo.name = ''gemini-2.5-flash'', label = ''Gemini 2.5 Flash'', provider = ''Google'',
             maxTokenAllowed = JNum 1048576, maxCompletionTokens = Some 65536 \<rparr> ] \<rparr>"

subsection \<open>Collaborators\<close>

type_synonym env = "(string \<times> string) list"

text \<open>
  The argument and the result of \<^verbatim>\<open>getProviderBaseUrlAndKey\<close>, a method of the base
  class. Its body is not part of the provider: it is the parameter \<open>resolve\<close> of the two
  methods below. \<open>'s\<close> is the type of a provider setting.
\<close>

record 's resolver_args =
  apiKeys :: "env option"
  providerSettings :: "'s option"
  serverEnv :: "env option"
  defaultBaseUrlKey :: string
  defaultApiTokenKey :: string

record url_and_key =
  baseUrl :: "string option"
  apiKey :: "string option"

type_synonym 's resolver = "GoogleProvider \<Rightarrow> 's resolver_args \<Rightarrow> url_and_key"

text \<open>The argument both methods pass to it (lines 37 to 43 and 116 to 122).\<close>

definition lookup_args :: "env option \<Rightarrow> 's option \<Rightarrow> env option \<Rightarrow> 's resolver_args" where
  "lookup_args keys settings senv =
     \<lparr> apiKeys = keys, providerSettings = settings, serverEnv = senv,
       defaultBaseUrlKey = [], defaultApiTokenKey = ''GOOGLE_GENERATIVE_AI_API_KEY'' \<rparr>"

datatype body_init = BodyString string | BodyOther "nat list"

record request_init =
  http_method :: "string option"
  headers :: "(string \<times> string) list"
  body :: "body_init option"

text \<open>
  What the listing request sees of the network: \<^verbatim>\<open>fetch\<close> resolves to a response
  or rejects, and \<^verbatim>\<open>response.json()\<close> resolves to a value or rejects.
\<close>

record response =
  ok :: bool
  status :: int
  statusText :: string
  json_body :: "error + json"

type_synonym network = "string \<Rightarrow> request_init \<Rightarrow> error + response"

text \<open>
  What a call leaves behind: the provider object after the call, the requests it sent
  with \<^verbatim>\<open>fetch\<close>, and what it returned or threw.
\<close>

record 'a outcome =
  this_after :: GoogleProvider
  requests :: "(string \<times> request_init) list"
  result :: "error + 'a"

text \<open>\<^verbatim>\<open>serverEnv?.KEY || dflt\<close>.\<close>

definition env_or :: "env option \<Rightarrow> string \<Rightarrow> string \<Rightarrow> string" where
  "env_or senv k dflt =
     (case senv of
        None \<Rightarrow> dflt
      | Some e \<Rightarrow> (case map_of e k of None \<Rightarrow> dflt | Some v \<Rightarrow> if v = [] then dflt else v))"

section \<open>getDynamicModels\<close>

text \<open>The \<^verbatim>\<open>filter\<close> callback (lines 77 to 82).\<close>

definition keep_model :: "(string \<Rightarrow> int option) \<Rightarrow> json \<Rightarrow> error + bool" where
  "keep_model s2n model =
     (case get_prop model ''outputTokenLimit'' of
        Inl e \<Rightarrow> Inl e
      | Inr outputTokenLimit \<Rightarrow>
          let hasGoodTokenLimit = js_gt s2n (js_or outputTokenLimit (JNum 0)) 8000 in
          (case get_prop model ''name'' of
             Inl e \<Rightarrow> Inl e
           | Inr nm \<Rightarrow>
               (case js_includes nm ''exp'' of
                  Inl e \<Rightarrow> Inl e
                | Inr hasExp \<Rightarrow>
                    if \<not> hasExp then Inr (hasGoodTokenLimit \<and> True)
                    else (case js_includes nm ''flash-exp'' of
                            Inl e \<Rightarrow> Inl e
                          | Inr hasFlashExp \<Rightarrow> Inr (hasGoodTokenLimit \<and> hasFlashExp)))))"

text \<open>The \<^verbatim>\<open>map\<close> callback (lines 84 to 105).\<close>

definition context_label :: "(string \<Rightarrow> int option) \<Rightarrow> json \<Rightarrow> string" where
  "context_label s2n contextWindow =
     (if js_ge s2n contextWindow 1000000
      then number_to_string (Math_floor_div s2n contextWindow 1000000) @ ''M''
      else number_to_string (Math_floor_div s2n contextWindow 1000) @ ''k'')"

definition to_model_info ::
  "(string \<Rightarrow> int option) \<Rightarrow> GoogleProvider \<Rightarrow> json \<Rightarrow> error + ModelInfo" where
  "to_model_info s2n this m =
     (case get_prop m ''name'' of
        Inl e \<Rightarrow> Inl e
      | Inr nm \<Rightarrow>
          (case js_replace nm ''models/'' [] of
             Inl e \<Rightarrow> Inl e
           | Inr modelName \<Rightarrow>
               (case get_prop m ''inputTokenLimit'' of
                  Inl e \<Rightarrow> Inl e
                | Inr inputTokenLimit \<Rightarrow>
                    let contextWindow0 = js_or inputTokenLimit (JNum 32000);
                        contextWindow1 =
                          (if str_includes modelName ''gemini-1.5-pro'' then JNum 2000000
                           else contextWindow0);
                        contextWindow =
                          (if str_includes modelName ''gemini-1.5-flash'' then JNum 1000000
                           else contextWindow1)
                    in
                    (case get_prop m ''outputTokenLimit'' of
                       Inl e \<Rightarrow> Inl e
                     | Inr outputTokenLimit \<Rightarrow>
                         let completionTokens =
                               Math_min s2n (js_or outputTokenLimit (JNum 8192)) 128000
                         in
                         (case get_prop m ''displayName'' of
                            Inl e \<Rightarrow> Inl e
                          | Inr displayName \<Rightarrow>
                              Inr \<lparr> ModelInfo.name = modelName,
                                    label = template displayName @ '' ('' @
                                            context_label s2n contextWindow @ '' context)'',
                                    provider = GoogleProvider.name this,
                                    maxTokenAllowed = contextWindow,
                                    maxCompletionTokens = completionTokens \<rparr>)))))"

text \<open>
  \<^verbatim>\<open>Array.prototype.filter\<close> and \<^verbatim>\<open>Array.prototype.map\<close> with a callback that may
  throw: the elements are visited in order and the first throw ends the call.
\<close>

fun Array_filter :: "('a \<Rightarrow> error + bool) \<Rightarrow> 'a list \<Rightarrow> error + 'a list" where
  "Array_filter f [] = Inr []"
| "Array_filter f (x # xs) =
     (case f x of
        Inl e \<Rightarrow> Inl e
      | Inr b \<Rightarrow>
          (case Array_filter f xs of
             Inl e \<Rightarrow> Inl e
           | Inr ys \<Rightarrow> Inr (if b then x # ys else ys)))"

fun Array_map :: "('a \<Rightarrow> error + 'b) \<Rightarrow> 'a list \<Rightarrow> error + 'b list" where
  "Array_map f [] = Inr []"
| "Array_map f (x # xs) =
     (case f x of
        Inl e \<Rightarrow> Inl e
      | Inr y \<Rightarrow> (case Array_map f xs of Inl e \<Rightarrow> Inl e | Inr ys \<Rightarrow> Inr (y # ys)))"

text \<open>The test of the response body (lines 65 to 71), disjunct by disjunct.\<close>

definition invalid_body :: "json \<Rightarrow> bool" where
  "invalid_body b =
     (\<not> truthy (Some b) \<or>
      typeof (Some b) \<noteq> ''object'' \<or>
      \<not> js_in ''models'' b \<or>
      \<not> truthy (case get_prop b ''models'' of Inl e \<Rightarrow> None | Inr v \<Rightarrow> v) \<or>
      \<not> Array_isArray (case get_prop b ''models'' of Inl e \<Rightarrow> None | Inr v \<Rightarrow> v))"

definition MODELS_ENDPOINT :: "env option \<Rightarrow> string \<Rightarrow> string" where
  "MODELS_ENDPOINT senv key =
     (let API_VERSION = env_or senv ''GOOGLE_API_VERSION'' ''v1beta'';
          BASE_URL = env_or senv ''GOOGLE_BASE_URL'' ''https://generativelanguage.googleapis.com''
      in BASE_URL @ ''/'' @ API_VERSION @ ''/models?key='' @ key)"

definition listing_request :: request_init where
  "listing_request =
     \<lparr> http_method = None, headers = [(''Content-Type'', ''application/json'')], body = None \<rparr>"

text \<open>What follows the response (lines 59 to 105).\<close>

definition read_models ::
  "(string \<Rightarrow> int option) \<Rightarrow> GoogleProvider \<Rightarrow> response \<Rightarrow> error + ModelInfo list" where
  "read_models s2n this resp =
     (if \<not> ok resp
      then Inl (Error (''Failed to fetch models from Google API: '' @
                       string_of_int (status resp) @ '' '' @ statusText resp))
      else
        (case json_body resp of
           Inl e \<Rightarrow> Inl e
         | Inr b \<Rightarrow>
             if invalid_body b then Inl (Error ''Invalid response format from Google API'')
             else
               (case b of
                  JObj kvs \<Rightarrow>
                    (case map_of kvs ''models'' of
                       Some (JArr models) \<Rightarrow>
                         (case Array_filter (keep_model s2n) models of
                            Inl e \<Rightarrow> Inl e
                          | Inr data \<Rightarrow> Array_map (to_model_info s2n this) data)
                     | _ \<Rightarrow> Inl TypeError)
                | _ \<Rightarrow> Inl TypeError)))"

definition getDynamicModels ::
  "'s resolver \<Rightarrow> network \<Rightarrow> (string \<Rightarrow> int option) \<Rightarrow> GoogleProvider \<Rightarrow>
   env option \<Rightarrow> 's option \<Rightarrow> env option \<Rightarrow> ModelInfo list outcome" where
  "getDynamicModels resolve fetch s2n this keys settings senv =
     (case apiKey (resolve this (lookup_args keys settings senv)) of
        None \<Rightarrow>
          \<lparr> this_after = this, requests = [],
            result = Inl (Thrown (''Missing Api Key configuration for '' @
                                  GoogleProvider.name this @ '' provider'')) \<rparr>
      | Some key \<Rightarrow>
          if key = [] then
            \<lparr> this_after = this, requests = [],
              result = Inl (Thrown (''Missing Api Key configuration for '' @
                                    GoogleProvider.name this @ '' provider'')) \<rparr>
          else
            let url = MODELS_ENDPOINT senv key in
            \<lparr> this_after = this, requests = [(url, listing_request)],
              result = (case fetch url listing_request of
                          Inl e \<Rightarrow> Inl e
                        | Inr resp \<Rightarrow> read_models s2n this resp) \<rparr>)"

section \<open>getModelInstance\<close>

subsection \<open>The request patch\<close>




text \<open>
  The console: the calls of \<^verbatim>\<open>console.warn\<close>, oldest first, each the message and the
  caught error.
\<close>

type_synonym console = "(string \<times> error) list"

text \<open>
  A \<^verbatim>\<open>fetch\<close> function as the SDK calls it: from the URL and the options to a result
  of some type \<open>'r\<close>, writing to the console on the way.
\<close>

type_synonym 'r fetch_fn = "string \<Rightarrow> request_init option \<Rightarrow> console \<Rightarrow> 'r \<times> console"




subsection \<open>The model handle\<close>

text \<open>
  The SDK is a parameter: \<open>createGoogleGenerativeAI settings model\<close> stands for
  \<^verbatim>\<open>createGoogleGenerativeAI(settings)(model)\<close>. Of the handle it returns, the
  provider touches \<^verbatim>\<open>config.fetch\<close> only; \<open>handle\<close> is the rest of it.
\<close>

record sdk_settings =
  apiKey :: string
  baseUrl :: string

record ('h, 'r) LanguageModel =
  handle :: 'h
  config_fetch :: "'r fetch_fn option"



section \<open>Helper lemmas\<close>

lemma Array_filter_pure:
  "(\<And>x. x \<in> set xs \<Longrightarrow> f x = Inr (p x)) \<Longrightarrow> Array_filter f xs = Inr (filter p xs)"
  by (induction xs) auto

lemma Array_map_pure:
  "(\<And>x. x \<in> set xs \<Longrightarrow> f x = Inr (g x)) \<Longrightarrow> Array_map f xs = Inr (map g xs)"
  by (induction xs) auto

lemma Array_filter_Inr:
  "Array_filter f xs = Inr ys \<Longrightarrow>
     ys = filter (\<lambda>x. f x = Inr True) xs \<and> (\<forall>x\<in>set xs. \<exists>b. f x = Inr b)"
  by (induction xs arbitrary: ys) (auto split: sum.splits if_splits)

lemma Array_map_Inr:
  "Array_map f xs = Inr ys \<Longrightarrow> list_all2 (\<lambda>x y. f x = Inr y) xs ys"
  by (induction xs arbitrary: ys) (auto split: sum.splits)

lemma Array_filter_returns:
  "(\<exists>ys. Array_filter f xs = Inr ys) \<longleftrightarrow> (\<forall>x\<in>set xs. \<exists>b. f x = Inr b)"
  by (induction xs) (auto split: sum.splits)

lemma Array_map_returns:
  "(\<exists>ys. Array_map f xs = Inr ys) \<longleftrightarrow> (\<forall>x\<in>set xs. \<exists>y. f x = Inr y)"
  by (induction xs) (auto split: sum.splits)

text \<open>The five-part test of the body accepts exactly an object whose \<^verbatim>\<open>models\<close> is an array.\<close>

lemma valid_body_iff:
  "\<not> invalid_body b \<longleftrightarrow> (\<exists>kvs models. b = JObj kvs \<and> map_of kvs ''models'' = Some (JArr models))"
proof (cases b)
  case (JObj kvs)
  show ?thesis
  proof (cases "map_of kvs ''models''")
    case None
    then have "''models'' \<notin> fst ` set kvs" by (simp add: map_of_eq_None_iff)
    with JObj None show ?thesis by (simp add: invalid_body_def)
  next
    case (Some v)
    then have "''models'' \<in> fst ` set kvs" by (metis map_of_eq_None_iff option.distinct(1))
    with JObj Some show ?thesis by (cases v) (simp_all add: invalid_body_def)
  qed
qed (simp_all add: invalid_body_def)

text \<open>Past the three guards, the result is the filter followed by the map.\<close>

lemma getDynamicModels_result:
  assumes "url_and_key.apiKey (resolve this (lookup_args keys settings senv)) = Some key"
    and "key \<noteq> []"
    and "fetch (MODELS_ENDPOINT senv key) listing_request = Inr resp"
    and "ok resp"
    and "json_body resp = Inr (JObj kvs)"
    and "map_of kvs ''models'' = Some (JArr models)"
  shows "result (getDynamicModels resolve fetch s2n this keys settings senv) =
    (case Array_filter (keep_model s2n) models of
       Inl e \<Rightarrow> Inl e
     | Inr data \<Rightarrow> Array_map (to_model_info s2n this) data)"
proof -
  have "\<not> invalid_body (JObj kvs)"
    using assms(6) valid_body_iff by blast
  with assms show ?thesis
    by (simp add: getDynamicModels_def read_models_def Let_def)
qed

section \<open>The static catalog\<close>

text \<open>
  Claim C6. The static catalog \<^verbatim>\<open>staticModels\<close> has exactly two entries,
  \<^verbatim>\<open>gemini-2.5-pro\<close> and \<^verbatim>\<open>gemini-2.5-flash\<close>, in this order, each with provider
  \<^verbatim>\<open>Google\<close>, \<^verbatim>\<open>maxTokenAllowed\<close> 1048576 and \<^verbatim>\<open>maxCompletionTokens\<close> 65536.
\<close>

theorem staticModels_catalog:
  "map (\<lambda>m. (ModelInfo.name m, provider m, maxTokenAllowed m, maxCompletionTokens m))
       (staticModels google_provider) =
   [(''gemini-2.5-pro'', ''Google'', JNum 1048576, Some 65536),
    (''gemini-2.5-flash'', ''Google'', JNum 1048576, Some 65536)]"
  by (simp add: google_provider_def)

section \<open>The listing request\<close>



section \<open>The provider object is left alone\<close>


end
